theory Spec2Isabelle
  imports Complex_Main
begin

section \<open>Configuration constants of the game\<close>

text \<open>
  The module-level constants of \<^verbatim>\<open>src/1.py\<close> (lines 23 to 40).  Python floats are
  modelled as the real numbers they denote; timestamps and speeds are \<^typ>\<open>real\<close>,
  rectangle coordinates are \<^typ>\<open>int\<close> as in \<^verbatim>\<open>pygame.Rect\<close>.
\<close>

definition WIDTH :: int where "WIDTH = 960"
definition HEIGHT :: int where "HEIGHT = 540"
definition PLAYER_SIZE :: int where "PLAYER_SIZE = 36"
definition ENEMY_SIZE :: int where "ENEMY_SIZE = 28"
definition POWERUP_SIZE :: int where "POWERUP_SIZE = 22"
definition PLAYER_SPEED :: real where "PLAYER_SPEED = 330"
definition DASH_SPEED :: real where "DASH_SPEED = 820"
definition DASH_TIME :: real where "DASH_TIME = 18 / 100"
definition DASH_COOLDOWN :: real where "DASH_COOLDOWN = 12 / 10"
definition INVINCIBLE_AFTER_HIT :: real where "INVINCIBLE_AFTER_HIT = 8 / 10"
definition SPAWN_BASE_INTERVAL :: real where "SPAWN_BASE_INTERVAL = 9 / 10"
definition SPAWN_MIN_INTERVAL :: real where "SPAWN_MIN_INTERVAL = 18 / 100"
definition SPAWN_ACCEL_TIME :: real where "SPAWN_ACCEL_TIME = 60"
definition ENEMY_SPEED_BASE :: real where "ENEMY_SPEED_BASE = 180"
definition ENEMY_SPEED_MAX :: real where "ENEMY_SPEED_MAX = 560"
definition POWERUP_INTERVAL :: "real \<times> real" where "POWERUP_INTERVAL = (6, 11)"

text \<open>The four session states, \<^verbatim>\<open>S_MENU, S_PLAY, S_PAUSE, S_GAMEOVER = range(4)\<close>.\<close>

datatype session = S_MENU | S_PLAY | S_PAUSE | S_GAMEOVER

section \<open>Helpers\<close>

text \<open>\<^verbatim>\<open>def clamp(v, lo, hi): return max(lo, min(hi, v))\<close>\<close>

definition clamp :: "'a::linorder \<Rightarrow> 'a \<Rightarrow> 'a \<Rightarrow> 'a" where
  "clamp v lo hi = max lo (min hi v)"

text \<open>Python's \<^verbatim>\<open>int(f)\<close> on a float: truncation towards zero.\<close>

definition py_int :: "real \<Rightarrow> int" where
  "py_int r = (if 0 \<le> r then \<lfloor>r\<rfloor> else \<lceil>r\<rceil>)"

text \<open>\<^verbatim>\<open>math.hypot(a, b)\<close>, the Euclidean norm of a pair.\<close>

definition hypot :: "real \<Rightarrow> real \<Rightarrow> real" where
  "hypot a b = sqrt (a * a + b * b)"

section \<open>Rectangles\<close>

text \<open>
  A \<^verbatim>\<open>pygame.Rect\<close>: integer position of the top-left corner, width and height.
  The derived attributes the game reads are functions of these four.
\<close>

record rect =
  rect_x :: int
  rect_y :: int
  rect_w :: int
  rect_h :: int

definition rect_left :: "rect \<Rightarrow> int" where "rect_left r = rect_x r"
definition rect_right :: "rect \<Rightarrow> int" where "rect_right r = rect_x r + rect_w r"
definition rect_top :: "rect \<Rightarrow> int" where "rect_top r = rect_y r"
definition rect_bottom :: "rect \<Rightarrow> int" where "rect_bottom r = rect_y r + rect_h r"

text \<open>
  \<^verbatim>\<open>Rect.colliderect\<close> of the pygame library: two rectangles collide when their
  interiors overlap; rectangles that only touch along an edge do not.  Every rectangle
  of the game has positive width and height.
\<close>

definition colliderect :: "rect \<Rightarrow> rect \<Rightarrow> bool" where
  "colliderect a b \<longleftrightarrow>
     rect_x a < rect_x b + rect_w b \<and> rect_y a < rect_y b + rect_h b \<and>
     rect_x b < rect_x a + rect_w a \<and> rect_y b < rect_y a + rect_h a"

section \<open>The player\<close>

text \<open>The fields of class \<^verbatim>\<open>Player\<close> (lines 107 to 114).\<close>

record player =
  p_size :: int
  p_rect :: rect
  p_speed :: real
  invincible_until :: real
  has_shield :: bool
  dash_until :: real
  dash_cd_until :: real

text \<open>
  The key state returned by \<^verbatim>\<open>pygame.key.get_pressed()\<close>, restricted to the keys
  that \<^verbatim>\<open>Player.update\<close> and \<^verbatim>\<open>Game.update\<close> read.
\<close>

record keys =
  K_a :: bool
  K_LEFT :: bool
  K_d :: bool
  K_RIGHT :: bool
  K_w :: bool
  K_UP :: bool
  K_s :: bool
  K_DOWN :: bool
  K_SPACE :: bool
  K_LCTRL :: bool

text \<open>
  Lines 125 to 133 of \<^verbatim>\<open>Player.update\<close>: the raw direction accumulated from the
  four pairs of keys.
\<close>

definition raw_dir :: "keys \<Rightarrow> real \<times> real" where
  "raw_dir ks =
    (let vx = 0; vy = 0;
         vx = (if K_a ks \<or> K_LEFT ks then vx - 1 else vx);
         vx = (if K_d ks \<or> K_RIGHT ks then vx + 1 else vx);
         vy = (if K_w ks \<or> K_UP ks then vy - 1 else vy);
         vy = (if K_s ks \<or> K_DOWN ks then vy + 1 else vy)
     in (vx, vy))"

text \<open>
  Lines 140 to 142: a non-zero direction is divided by its Euclidean length.
\<close>

definition unit_dir :: "keys \<Rightarrow> real \<times> real" where
  "unit_dir ks =
    (let (vx, vy) = raw_dir ks
     in if vx \<noteq> 0 \<or> vy \<noteq> 0
        then (let mag = hypot vx vy in (vx / mag, vy / mag))
        else (vx, vy))"

text \<open>Lines 135 to 137: the dash speed replaces the base speed while a dash runs.\<close>

definition eff_speed :: "player \<Rightarrow> real \<Rightarrow> real" where
  "eff_speed p now = (if now < dash_until p then DASH_SPEED else p_speed p)"

text \<open>
  \<^verbatim>\<open>Player.update(dt, keys, now)\<close>: each coordinate moves by the truncated product
  \<^verbatim>\<open>int(v * spd * dt)\<close> and is then clamped into the field.
\<close>

definition update_player :: "real \<Rightarrow> keys \<Rightarrow> real \<Rightarrow> player \<Rightarrow> player" where
  "update_player dt ks now p =
    (let (vx, vy) = unit_dir ks;
         spd = eff_speed p now;
         r = p_rect p;
         r = r\<lparr>rect_x := rect_x r + py_int (vx * spd * dt)\<rparr>;
         r = r\<lparr>rect_y := rect_y r + py_int (vy * spd * dt)\<rparr>;
         r = r\<lparr>rect_x := clamp (rect_x r) 0 (WIDTH - p_size p)\<rparr>;
         r = r\<lparr>rect_y := clamp (rect_y r) 0 (HEIGHT - p_size p)\<rparr>
     in p\<lparr>p_rect := r\<rparr>)"

text \<open>
  \<^verbatim>\<open>Player.try_dash(now)\<close>: returns whether the dash started, with the player
  after the call.
\<close>

definition try_dash :: "real \<Rightarrow> player \<Rightarrow> bool \<times> player" where
  "try_dash now p =
    (if now \<ge> dash_cd_until p
     then (True, p\<lparr>dash_until := now + DASH_TIME,
                    dash_cd_until := now + DASH_COOLDOWN,
                    invincible_until := max (invincible_until p) (now + DASH_TIME * (9 / 10))\<rparr>)
     else (False, p))"

text \<open>
  \<^verbatim>\<open>Player.hit(now)\<close>: returns \<^verbatim>\<open>True\<close> for a lethal hit and \<^verbatim>\<open>False\<close> for an
  absorbed one (by running invincibility, checked first, or by the shield), with the
  player after the call.
\<close>

definition hit :: "real \<Rightarrow> player \<Rightarrow> bool \<times> player" where
  "hit now p =
    (if now < invincible_until p then (False, p)
     else if has_shield p
       then (False, p\<lparr>has_shield := False, invincible_until := now + INVINCIBLE_AFTER_HIT\<rparr>)
     else (True, p))"

text \<open>
  \<^verbatim>\<open>Player.__init__\<close> and \<^verbatim>\<open>Player.start\<close> (lines 107 to 122).  Assigning
  \<^verbatim>\<open>rect.centerx\<close> moves the left edge to the centre minus half the width (integer
  division), assigning \<^verbatim>\<open>rect.bottom\<close> moves the top edge to the bottom minus the
  height.
\<close>

definition new_player :: player where
  "new_player =
    \<lparr>p_size = PLAYER_SIZE,
     p_rect = \<lparr>rect_x = WIDTH div 2 - PLAYER_SIZE div 2, rect_y = HEIGHT - PLAYER_SIZE * 2,
               rect_w = PLAYER_SIZE, rect_h = PLAYER_SIZE\<rparr>,
     p_speed = PLAYER_SPEED, invincible_until = 0, has_shield = False,
     dash_until = 0, dash_cd_until = 0\<rparr>"

definition start :: "player \<Rightarrow> player" where
  "start p =
    (let r = p_rect p;
         r = r\<lparr>rect_x := WIDTH div 2 - rect_w r div 2\<rparr>;
         r = r\<lparr>rect_y := HEIGHT - 16 - rect_h r\<rparr>
     in p\<lparr>p_rect := r, invincible_until := 0, dash_until := 0, dash_cd_until := 0,
          has_shield := False\<rparr>)"

section \<open>Obstacles and power-ups\<close>

text \<open>
  The fields of class \<^verbatim>\<open>Enemy\<close>.  Python compares objects of a class without
  \<^verbatim>\<open>__eq__\<close> by identity, and \<^verbatim>\<open>list.remove\<close> deletes the first element equal
  to its argument; \<open>e_ident\<close> is that identity, given to the object when it is created.
\<close>

record enemy =
  e_ident :: nat
  e_size :: int
  e_rect :: rect
  e_speed :: real
  drift :: real

text \<open>
  The random draws of one \<^verbatim>\<open>spawn_enemy(enemy_speed * random.uniform(0.9, 1.15))\<close>,
  in the order the code makes them, with the identity of the new object.
\<close>

record enemy_draw =
  ed_ident :: nat
  ed_factor :: real
  ed_x :: int
  ed_yoff :: int
  ed_drift :: real

text \<open>\<^verbatim>\<open>Enemy.__init__(speed)\<close> (lines 179 to 185).\<close>

definition new_enemy :: "real \<Rightarrow> enemy_draw \<Rightarrow> enemy" where
  "new_enemy spd d =
    \<lparr>e_ident = ed_ident d, e_size = ENEMY_SIZE,
     e_rect = \<lparr>rect_x = ed_x d, rect_y = - ENEMY_SIZE - ed_yoff d,
               rect_w = ENEMY_SIZE, rect_h = ENEMY_SIZE\<rparr>,
     e_speed = spd, drift = ed_drift d\<rparr>"

text \<open>
  \<^verbatim>\<open>Enemy.update(dt)\<close>: returns the liveness flag \<^verbatim>\<open>rect.top <= HEIGHT\<close> with the
  obstacle after the move.
\<close>

definition update_enemy :: "real \<Rightarrow> enemy \<Rightarrow> bool \<times> enemy" where
  "update_enemy dt e =
    (let r = e_rect e;
         r = r\<lparr>rect_y := rect_y r + py_int (e_speed e * dt)\<rparr>;
         r = r\<lparr>rect_x := rect_x r + py_int (drift e * dt)\<rparr>;
         d = (if rect_left r < 0 \<or> rect_right r > WIDTH then - drift e else drift e)
     in (rect_top r \<le> HEIGHT, e\<lparr>e_rect := r, drift := d\<rparr>))"

text \<open>Class \<^verbatim>\<open>PowerUp\<close>, with the object identity as for obstacles.\<close>

record powerup =
  pu_ident :: nat
  pu_kind :: string
  pu_rect :: rect
  pu_speed :: real

definition TYPES :: "string list" where
  "TYPES = [''shield'']"

record powerup_draw =
  pd_ident :: nat
  pd_choice :: nat
  pd_x :: int
  pd_yoff :: int
  pd_speed :: real

text \<open>
  \<^verbatim>\<open>PowerUp.__init__\<close>; \<^verbatim>\<open>random.choice(self.TYPES)\<close> picks the element at a drawn
  index below the length of the tuple.
\<close>

definition new_powerup :: "powerup_draw \<Rightarrow> powerup" where
  "new_powerup d =
    \<lparr>pu_ident = pd_ident d, pu_kind = TYPES ! (pd_choice d mod length TYPES),
     pu_rect = \<lparr>rect_x = pd_x d, rect_y = - POWERUP_SIZE - pd_yoff d,
                rect_w = POWERUP_SIZE, rect_h = POWERUP_SIZE\<rparr>,
     pu_speed = pd_speed d\<rparr>"

definition update_powerup :: "real \<Rightarrow> powerup \<Rightarrow> bool \<times> powerup" where
  "update_powerup dt p =
    (let r = pu_rect p;
         r = r\<lparr>rect_y := rect_y r + py_int (pu_speed p * dt)\<rparr>
     in (rect_top r \<le> HEIGHT, p\<lparr>pu_rect := r\<rparr>))"

section \<open>The high-score file\<close>

text \<open>
  The content of \<^verbatim>\<open>highscore.json\<close>: \<open>None\<close> when the file is absent or cannot be
  read as a score.  A write may fail; the code swallows the exception.
\<close>

type_synonym score_file = "int option"

datatype io_result = Write_ok | Open_fails | Dump_fails

definition load_high_score :: "score_file \<Rightarrow> int" where
  "load_high_score f = (case f of Some v \<Rightarrow> v | None \<Rightarrow> 0)"

text \<open>
  \<^verbatim>\<open>save_high_score(score)\<close>: when \<^verbatim>\<open>open\<close> raises the file keeps its content; when
  the dump raises after the file was opened for writing, the old content is gone.
\<close>

definition save_high_score :: "io_result \<Rightarrow> int \<Rightarrow> score_file \<Rightarrow> score_file" where
  "save_high_score io sc f =
    (case io of Write_ok \<Rightarrow> Some sc | Open_fails \<Rightarrow> f | Dump_fails \<Rightarrow> None)"

section \<open>The game\<close>

text \<open>
  The gameplay fields of class \<^verbatim>\<open>Game\<close>, with the score file the game writes.
\<close>

record game =
  state :: session
  player :: player
  enemies :: "enemy list"
  powerups :: "powerup list"
  score :: real
  start_time :: real
  last_spawn :: real
  next_powerup_t :: real
  game_over_time :: "real option"
  high_score :: int
  hs_file :: score_file

text \<open>\<^verbatim>\<open>Game.difficulty(t)\<close> (lines 262 to 268).\<close>

definition difficulty :: "real \<Rightarrow> real \<times> real" where
  "difficulty t =
    (let k = clamp (t / SPAWN_ACCEL_TIME) 0 1;
         spawn = SPAWN_BASE_INTERVAL * (1 - k) + SPAWN_MIN_INTERVAL * k;
         speed = ENEMY_SPEED_BASE * (1 - k) + ENEMY_SPEED_MAX * k
     in (spawn, speed))"

text \<open>
  The curve as the specification words it: linear interpolation between the base and
  the limit value with the parameter \<open>k\<close> equal to \<open>t / ACCEL_TIME\<close> cut off below at
  0 and above at 1.
\<close>

definition spec_k :: "real \<Rightarrow> real" where
  "spec_k t = (if t / SPAWN_ACCEL_TIME < 0 then 0
               else if t / SPAWN_ACCEL_TIME > 1 then 1 else t / SPAWN_ACCEL_TIME)"

definition spec_curve :: "real \<Rightarrow> real \<times> real" where
  "spec_curve t =
     (SPAWN_BASE_INTERVAL * (1 - spec_k t) + SPAWN_MIN_INTERVAL * spec_k t,
      ENEMY_SPEED_BASE * (1 - spec_k t) + ENEMY_SPEED_MAX * spec_k t)"

text \<open>
  \<^verbatim>\<open>Game.game_over()\<close>; \<open>clk\<close> is the reading of \<^verbatim>\<open>time.perf_counter()\<close> and
  \<open>io\<close> the outcome of the write, should one be made.
\<close>

definition game_over :: "real \<Rightarrow> io_result \<Rightarrow> game \<Rightarrow> game" where
  "game_over clk io g =
    (let g = g\<lparr>state := S_GAMEOVER, game_over_time := Some clk\<rparr>;
         final_score = py_int (score g)
     in if final_score > high_score g
        then g\<lparr>high_score := final_score,
               hs_file := save_high_score io final_score (hs_file g)\<rparr>
        else g)"

text \<open>
  One pass of the first loop of \<^verbatim>\<open>Game.handle_collisions\<close> (lines 279 to 284), for
  the obstacle \<open>e\<close> of the snapshot \<^verbatim>\<open>list(self.enemies)\<close>.
\<close>

definition collide_enemy :: "real \<Rightarrow> real \<Rightarrow> io_result \<Rightarrow> enemy \<Rightarrow> game \<Rightarrow> game" where
  "collide_enemy now clk io e g =
    (if colliderect (p_rect (player g)) (e_rect e)
     then (let (lethal, p) = hit now (player g);
               g = g\<lparr>player := p\<rparr>
           in if lethal then game_over clk io g
              else g\<lparr>enemies := remove1 e (enemies g)\<rparr>)
     else g)"

fun handle_enemies :: "real \<Rightarrow> real \<Rightarrow> io_result \<Rightarrow> enemy list \<Rightarrow> game \<Rightarrow> game" where
  "handle_enemies now clk io [] g = g"
| "handle_enemies now clk io (e # es) g =
     handle_enemies now clk io es (collide_enemy now clk io e g)"

text \<open>One pass of the second loop (lines 287 to 291).\<close>

definition collide_powerup :: "powerup \<Rightarrow> game \<Rightarrow> game" where
  "collide_powerup p g =
    (if colliderect (p_rect (player g)) (pu_rect p)
     then (let g = (if pu_kind p = ''shield''
                    then g\<lparr>player := (player g)\<lparr>has_shield := True\<rparr>\<rparr> else g)
           in g\<lparr>powerups := remove1 p (powerups g)\<rparr>)
     else g)"

fun handle_powerups :: "powerup list \<Rightarrow> game \<Rightarrow> game" where
  "handle_powerups [] g = g"
| "handle_powerups (p # ps) g = handle_powerups ps (collide_powerup p g)"

text \<open>
  \<^verbatim>\<open>Game.handle_collisions(now)\<close>: both loops run over a copy of the list taken
  when the loop starts.
\<close>

definition handle_collisions :: "real \<Rightarrow> real \<Rightarrow> io_result \<Rightarrow> game \<Rightarrow> game" where
  "handle_collisions now clk io g =
    (let g = handle_enemies now clk io (enemies g) g
     in handle_powerups (powerups g) g)"

text \<open>
  What one call of \<^verbatim>\<open>Game.update\<close> reads from outside the game: the clock, the
  keys, and the random draws in the order the code makes them.
\<close>

record tick_env =
  t_now :: real
  t_keys :: keys
  t_random :: real
  t_enemy1 :: enemy_draw
  t_enemy2 :: enemy_draw
  t_powerup :: powerup_draw
  t_interval :: real
  t_clock :: real
  t_io :: io_result

text \<open>The list comprehensions of lines 330 and 331.\<close>

definition advance_enemies :: "real \<Rightarrow> enemy list \<Rightarrow> enemy list" where
  "advance_enemies dt es = map snd (filter fst (map (update_enemy dt) es))"

definition advance_powerups :: "real \<Rightarrow> powerup list \<Rightarrow> powerup list" where
  "advance_powerups dt ps = map snd (filter fst (map (update_powerup dt) ps))"

text \<open>Lines 317 to 322: the obstacles spawned in this tick.\<close>

definition spawn_enemies :: "tick_env \<Rightarrow> real \<Rightarrow> real \<Rightarrow> real \<Rightarrow> game \<Rightarrow> game" where
  "spawn_enemies env elapsed spawn_interval enemy_speed g =
    (if t_now env - last_spawn g \<ge> spawn_interval
     then (let g = g\<lparr>last_spawn := t_now env\<rparr>;
               second = (t_random env < min (35 / 100) (elapsed / 90));
               g = g\<lparr>enemies := enemies g
                        @ [new_enemy (enemy_speed * ed_factor (t_enemy1 env)) (t_enemy1 env)]\<rparr>
           in if second
              then g\<lparr>enemies := enemies g
                        @ [new_enemy (enemy_speed * ed_factor (t_enemy2 env)) (t_enemy2 env)]\<rparr>
              else g)
     else g)"

text \<open>Lines 325 to 327.\<close>

definition spawn_powerups :: "tick_env \<Rightarrow> real \<Rightarrow> game \<Rightarrow> game" where
  "spawn_powerups env elapsed g =
    (if elapsed \<ge> next_powerup_t g
     then g\<lparr>powerups := powerups g @ [new_powerup (t_powerup env)],
            next_powerup_t := elapsed + t_interval env\<rparr>
     else g)"

text \<open>\<^verbatim>\<open>Game.update(dt)\<close> (lines 301 to 337).\<close>

definition update_game :: "real \<Rightarrow> tick_env \<Rightarrow> game \<Rightarrow> game" where
  "update_game dt env g =
    (let now = t_now env; ks = t_keys env
     in if state g = S_PLAY
        then (let g = g\<lparr>player := update_player dt ks now (player g)\<rparr>;
                  g = (if K_SPACE ks \<or> K_LCTRL ks
                       then g\<lparr>player := snd (try_dash now (player g))\<rparr> else g);
                  elapsed = now - start_time g;
                  (spawn_interval, enemy_speed) = difficulty elapsed;
                  g = spawn_enemies env elapsed spawn_interval enemy_speed g;
                  g = spawn_powerups env elapsed g;
                  g = g\<lparr>enemies := advance_enemies dt (enemies g)\<rparr>;
                  g = g\<lparr>powerups := advance_powerups dt (powerups g)\<rparr>;
                  g = handle_collisions now (t_clock env) (t_io env) g
              in g\<lparr>score := elapsed * 10 + real_of_int (max 0 (int (length (enemies g)) - 4))\<rparr>)
        else g)"

section \<open>Sample states\<close>

text \<open>
  The player that \<^verbatim>\<open>Game.reset\<close> creates (\<open>start new_player\<close>), written out:
  centred horizontally, 16 pixels above the bottom edge, no shield, all timers at zero.
\<close>

definition start_player :: player where
  "start_player =
    \<lparr>p_size = PLAYER_SIZE,
     p_rect = \<lparr>rect_x = 462, rect_y = 488, rect_w = PLAYER_SIZE, rect_h = PLAYER_SIZE\<rparr>,
     p_speed = PLAYER_SPEED, invincible_until = 0, has_shield = False,
     dash_until = 0, dash_cd_until = 0\<rparr>"

text \<open>A player holding a shield while an invincibility window runs until time 2.\<close>

definition guarded_player :: player where
  "guarded_player = start_player\<lparr>invincible_until := 2, has_shield := True\<rparr>"

text \<open>A player holding a shield with no invincibility left.\<close>

definition shielded_player :: player where
  "shielded_player = start_player\<lparr>has_shield := True\<rparr>"

text \<open>
  A session in play whose score is 85.7, against a best score of 100 held in memory
  and in the file.
\<close>

definition sample_game :: game where
  "sample_game =
    \<lparr>state = S_PLAY, player = start_player, enemies = [], powerups = [],
     score = 857 / 10, start_time = 0, last_spawn = 0, next_powerup_t = 8,
     game_over_time = None, high_score = 100, hs_file = Some 100\<rparr>"




text \<open>Key states: nothing held, right and down held (D and S), right alone held.\<close>

definition keys_none :: keys where
  "keys_none = \<lparr>K_a = False, K_LEFT = False, K_d = False, K_RIGHT = False, K_w = False,
     K_UP = False, K_s = False, K_DOWN = False, K_SPACE = False, K_LCTRL = False\<rparr>"















text \<open>
  An obstacle in column \<open>i\<close> with its top edge at height \<open>y\<close>, falling at speed 240
  without drift: at 60 ticks per second it moves 4 pixels per tick.
\<close>

definition falling :: "nat \<Rightarrow> int \<Rightarrow> enemy" where
  "falling i y =
    \<lparr>e_ident = i, e_size = ENEMY_SIZE,
     e_rect = \<lparr>rect_x = 40 * int i, rect_y = y, rect_w = ENEMY_SIZE, rect_h = ENEMY_SIZE\<rparr>,
     e_speed = 240, drift = 0\<rparr>"

text \<open>
  A session in play, 10 seconds old, with five obstacles close to the bottom edge and
  the last spawn at 9.9 seconds.
\<close>

definition dense_game :: game where
  "dense_game =
    \<lparr>state = S_PLAY, player = start_player,
     enemies = [falling 0 533, falling 1 533, falling 2 533, falling 3 533, falling 4 533],
     powerups = [],
     score = 100, start_time = 0, last_spawn = 99 / 10, next_powerup_t = 100,
     game_over_time = None, high_score = 0, hs_file = None\<rparr>"

text \<open>The surroundings of a tick at clock reading \<open>t\<close> with no key held.\<close>

definition quiet_env :: "real \<Rightarrow> tick_env" where
  "quiet_env t =
    \<lparr>t_now = t, t_keys = keys_none, t_random = 1 / 2,
     t_enemy1 = \<lparr>ed_ident = 10, ed_factor = 1, ed_x = 500, ed_yoff = 0, ed_drift = 0\<rparr>,
     t_enemy2 = \<lparr>ed_ident = 11, ed_factor = 1, ed_x = 600, ed_yoff = 0, ed_drift = 0\<rparr>,
     t_powerup = \<lparr>pd_ident = 12, pd_choice = 0, pd_x = 700, pd_yoff = 40, pd_speed = 150\<rparr>,
     t_interval = 8, t_clock = t, t_io = Write_ok\<rparr>"

text \<open>The same session with a single obstacle high up in the field.\<close>

definition calm_game :: game where
  "calm_game = dense_game\<lparr>enemies := [falling 0 100], score := 100\<rparr>"

text \<open>Two consecutive ticks of the dense session, one sixtieth of a second apart.\<close>

definition tick1 :: game where
  "tick1 = update_game (1 / 60) (quiet_env 10) dense_game"

definition tick2 :: game where
  "tick2 = update_game (1 / 60) (quiet_env (10 + 1 / 60)) tick1"

section \<open>Facts about the helpers\<close>

lemmas config_defs =
  WIDTH_def HEIGHT_def PLAYER_SIZE_def ENEMY_SIZE_def POWERUP_SIZE_def PLAYER_SPEED_def
  DASH_SPEED_def DASH_TIME_def DASH_COOLDOWN_def INVINCIBLE_AFTER_HIT_def
  SPAWN_BASE_INTERVAL_def SPAWN_MIN_INTERVAL_def SPAWN_ACCEL_TIME_def
  ENEMY_SPEED_BASE_def ENEMY_SPEED_MAX_def POWERUP_INTERVAL_def

lemma clamp_unit: "clamp (x::real) 0 1 = (if x < 0 then 0 else if x > 1 then 1 else x)"
  by (simp add: clamp_def max_def min_def)

lemma start_new_player: "start new_player = start_player"
  by (simp add: start_def new_player_def start_player_def config_defs Let_def)

section \<open>Hit resolution of the player\<close>

text \<open>
  Claim C5.  \<^verbatim>\<open>Player.hit\<close> checks invincibility first: whenever
  \<open>now < invincible_until\<close> the call returns the non-lethal result of the first branch,
  also when a shield is held, and neither the shield nor the invincibility window is
  touched (the shield is not consumed).
\<close>

theorem hit_invincible_first:
  "now < invincible_until p \<Longrightarrow>
     fst (hit now p) = False \<and> has_shield (snd (hit now p)) = has_shield p
     \<and> invincible_until (snd (hit now p)) = invincible_until p"
  by (simp add: hit_def)

theorem hit_invincible_first_witness:
  "(1::real) < invincible_until guarded_player
   \<and> has_shield guarded_player
   \<and> fst (hit 1 guarded_player) = False
   \<and> has_shield (snd (hit 1 guarded_player)) = True
   \<and> invincible_until (snd (hit 1 guarded_player)) = 2"
  using hit_invincible_first [of 1 guarded_player]
  by (simp add: guarded_player_def start_player_def)

text \<open>
  Claim C6.  With a shield and no running invincibility, \<^verbatim>\<open>hit(now)\<close> is not lethal,
  clears the shield and sets \<open>invincible_until\<close> to \<open>now + INVINCIBLE_AFTER_HIT\<close>; a
  second call at any \<open>now'\<close> before that instant takes the invincibility branch: it is
  not lethal and leaves the player as it is.
\<close>

theorem hit_shield_then_grace:
  "has_shield p \<Longrightarrow> invincible_until p \<le> now \<Longrightarrow>
     fst (hit now p) = False
     \<and> has_shield (snd (hit now p)) = False
     \<and> invincible_until (snd (hit now p)) = now + INVINCIBLE_AFTER_HIT
     \<and> (now' < now + INVINCIBLE_AFTER_HIT \<longrightarrow>
          hit now' (snd (hit now p)) = (False, snd (hit now p)))"
  by (simp add: hit_def)

theorem hit_shield_then_grace_witness:
  "has_shield shielded_player \<and> invincible_until shielded_player \<le> 5
   \<and> (5 + 1 / 2 :: real) < 5 + INVINCIBLE_AFTER_HIT
   \<and> fst (hit 5 shielded_player) = False
   \<and> has_shield (snd (hit 5 shielded_player)) = False
   \<and> invincible_until (snd (hit 5 shielded_player)) = 5 + INVINCIBLE_AFTER_HIT
   \<and> hit (5 + 1 / 2) (snd (hit 5 shielded_player)) = (False, snd (hit 5 shielded_player))"
  using hit_shield_then_grace [of shielded_player 5 "5 + 1 / 2"]
  by (simp add: shielded_player_def start_player_def INVINCIBLE_AFTER_HIT_def)

text \<open>
  Claim C10.  While \<open>now < invincible_until\<close>, \<^verbatim>\<open>hit(now)\<close> changes no field of the
  player: the player after the call is the player before it.
\<close>

theorem hit_invincible_frame:
  "now < invincible_until p \<Longrightarrow> snd (hit now p) = p"
  by (simp add: hit_def)

theorem hit_invincible_frame_witness:
  "(1::real) < invincible_until guarded_player \<and> snd (hit 1 guarded_player) = guarded_player"
  using hit_invincible_frame [of 1 guarded_player]
  by (simp add: guarded_player_def start_player_def)

section \<open>The dash cooldown\<close>

text \<open>
  Claim C7.  \<^verbatim>\<open>try_dash(now)\<close> succeeds exactly when \<open>now \<ge> dash_cd_until\<close>; a
  failed call leaves the whole player, so \<open>dash_cd_until\<close>, \<open>dash_until\<close> and
  \<open>invincible_until\<close>, unchanged; and after a successful dash at \<open>now0\<close> a call at
  any \<open>now1 < now0 + DASH_COOLDOWN\<close> fails and keeps the cooldown end set by the first.
\<close>

theorem try_dash_cooldown_gate:
  "(fst (try_dash now p) \<longleftrightarrow> dash_cd_until p \<le> now)
   \<and> (\<not> fst (try_dash now p) \<longrightarrow> snd (try_dash now p) = p)
   \<and> (dash_cd_until p \<le> now0 \<and> now1 < now0 + DASH_COOLDOWN \<longrightarrow>
        fst (try_dash now0 p)
        \<and> try_dash now1 (snd (try_dash now0 p)) = (False, snd (try_dash now0 p))
        \<and> dash_cd_until (snd (try_dash now1 (snd (try_dash now0 p)))) = now0 + DASH_COOLDOWN)"
  by (simp add: try_dash_def)

theorem try_dash_cooldown_gate_witness:
  "dash_cd_until start_player \<le> 3 \<and> (4::real) < 3 + DASH_COOLDOWN
   \<and> fst (try_dash 3 start_player)
   \<and> \<not> fst (try_dash 4 (snd (try_dash 3 start_player)))
   \<and> snd (try_dash 4 (snd (try_dash 3 start_player))) = snd (try_dash 3 start_player)
   \<and> dash_cd_until (snd (try_dash 4 (snd (try_dash 3 start_player)))) = 3 + DASH_COOLDOWN"
proof -
  have h: "dash_cd_until start_player \<le> 3 \<and> (4::real) < 3 + DASH_COOLDOWN"
    by (simp add: start_player_def DASH_COOLDOWN_def)
  from try_dash_cooldown_gate [of 4 start_player 3 4] h show ?thesis
    by auto
qed

section \<open>The difficulty curve\<close>

lemma difficulty_alt:
  "difficulty t = (9 / 10 - (72 / 100) * spec_k t, 180 + 380 * spec_k t)"
  by (simp add: difficulty_def spec_k_def clamp_unit config_defs Let_def field_simps)

lemma spec_k_mono: "s \<le> t \<Longrightarrow> spec_k s \<le> spec_k t"
  by (auto simp: spec_k_def config_defs divide_right_mono)

text \<open>
  Claim C8.  \<^verbatim>\<open>Game.difficulty\<close> is the reference curve of the specification; it
  returns the base pair at \<open>t = 0\<close>, the limit pair for every
  \<open>t \<ge> SPAWN_ACCEL_TIME\<close>, and for \<open>s \<le> t\<close> the spawn interval at \<open>t\<close> is at most
  the one at \<open>s\<close> while the enemy speed at \<open>t\<close> is at least the one at \<open>s\<close>.
\<close>

theorem difficulty_reference:
  "difficulty t = spec_curve t
   \<and> difficulty 0 = (SPAWN_BASE_INTERVAL, ENEMY_SPEED_BASE)
   \<and> (SPAWN_ACCEL_TIME \<le> t \<longrightarrow> difficulty t = (SPAWN_MIN_INTERVAL, ENEMY_SPEED_MAX))
   \<and> (s \<le> t \<longrightarrow> fst (difficulty t) \<le> fst (difficulty s)
                \<and> snd (difficulty s) \<le> snd (difficulty t))"
proof (intro conjI impI)
  show "difficulty t = spec_curve t"
    by (simp add: difficulty_def spec_curve_def spec_k_def clamp_unit Let_def)
  show "difficulty 0 = (SPAWN_BASE_INTERVAL, ENEMY_SPEED_BASE)"
    by (simp add: difficulty_def clamp_unit Let_def)
  show "difficulty t = (SPAWN_MIN_INTERVAL, ENEMY_SPEED_MAX)" if "SPAWN_ACCEL_TIME \<le> t"
    using that by (simp add: difficulty_def clamp_def config_defs Let_def)
  show "fst (difficulty t) \<le> fst (difficulty s)" if "s \<le> t"
    using spec_k_mono [OF that] by (simp add: difficulty_alt)
  show "snd (difficulty s) \<le> snd (difficulty t)" if "s \<le> t"
    using spec_k_mono [OF that] by (simp add: difficulty_alt)
qed

theorem difficulty_reference_witness:
  "SPAWN_ACCEL_TIME \<le> 75 \<and> (30::real) \<le> 75
   \<and> difficulty 75 = spec_curve 75
   \<and> difficulty 75 = (SPAWN_MIN_INTERVAL, ENEMY_SPEED_MAX)
   \<and> fst (difficulty 75) \<le> fst (difficulty 30)
   \<and> snd (difficulty 30) \<le> snd (difficulty 75)
   \<and> difficulty 30 = (54 / 100, 370)"
  using difficulty_reference [of 75 30]
  by (simp add: difficulty_alt spec_curve_def spec_k_def config_defs)

section \<open>The best score at game over\<close>

lemma py_int_eval:
  "py_int (857 / 10) = 85" "py_int (1509 / 10) = 150"
  by (simp_all add: py_int_def)

text \<open>
  Claim C9.  \<^verbatim>\<open>Game.game_over\<close> enters the game-over state and replaces the best
  score by the truncated final score exactly when the latter is strictly greater;
  the file receives the new best when the write succeeds and is left alone when there
  is no new best.  With a best of 100, a final score of 85 keeps 100 and a final score
  of 150 makes the best 150.
\<close>

theorem game_over_best_score:
  "state (game_over clk io g) = S_GAMEOVER
   \<and> high_score (game_over clk io g) =
       (if py_int (score g) > high_score g then py_int (score g) else high_score g)
   \<and> (io = Write_ok \<longrightarrow>
        hs_file (game_over clk io g) =
          (if py_int (score g) > high_score g then Some (py_int (score g)) else hs_file g))
   \<and> (py_int (score g) \<le> high_score g \<longrightarrow> hs_file (game_over clk io g) = hs_file g)"
  by (simp add: game_over_def save_high_score_def Let_def)

theorem game_over_best_score_witness:
  "py_int (score sample_game) = 85 \<and> high_score sample_game = 100
   \<and> load_high_score (hs_file sample_game) = 100
   \<and> high_score (game_over 9 Write_ok sample_game) = 100
   \<and> load_high_score (hs_file (game_over 9 Write_ok sample_game)) = 100
   \<and> py_int (score (sample_game\<lparr>score := 1509 / 10\<rparr>)) = 150
   \<and> high_score (game_over 9 Write_ok (sample_game\<lparr>score := 1509 / 10\<rparr>)) = 150
   \<and> load_high_score (hs_file (game_over 9 Write_ok (sample_game\<lparr>score := 1509 / 10\<rparr>))) = 150"
  using game_over_best_score [of 9 Write_ok sample_game]
    game_over_best_score [of 9 Write_ok "sample_game\<lparr>score := 1509 / 10\<rparr>"]
  by (simp add: sample_game_def load_high_score_def py_int_eval)

section \<open>Integration of the obstacle motion\<close>

lemma py_int_zero [simp]: "py_int 0 = 0"
  by (simp add: py_int_def)












section \<open>Movement of the player\<close>











lemma hypot_abs: "hypot (real_of_int a) (real_of_int b) = sqrt (real_of_int (\<bar>a\<bar> * \<bar>a\<bar> + \<bar>b\<bar> * \<bar>b\<bar>))"
  by (simp add: hypot_def)



















section \<open>Collision resolution\<close>

lemma hit_rect [simp]: "p_rect (snd (hit now p)) = p_rect p"
  by (simp add: hit_def)




lemma game_over_fields [simp]:
  "player (game_over clk io g) = player g"
  "enemies (game_over clk io g) = enemies g"
  "powerups (game_over clk io g) = powerups g"
  "start_time (game_over clk io g) = start_time g"
  "state (game_over clk io g) = S_GAMEOVER"
  by (simp_all add: game_over_def Let_def)











section \<open>The score from tick to tick\<close>

lemma collide_enemy_fields [simp]:
  "start_time (collide_enemy now clk io e g) = start_time g"
  by (simp add: collide_enemy_def game_over_def Let_def split_def)

lemma handle_enemies_start_time [simp]:
  "start_time (handle_enemies now clk io es g) = start_time g"
  by (induction es arbitrary: g) simp_all

lemma handle_powerups_start_time [simp]:
  "start_time (handle_powerups ps g) = start_time g"
  by (induction ps arbitrary: g) (simp_all add: collide_powerup_def Let_def)

lemma spawn_start_time [simp]:
  "start_time (spawn_enemies env el si sp g) = start_time g"
  "start_time (spawn_powerups env el g) = start_time g"
  by (simp_all add: spawn_enemies_def spawn_powerups_def Let_def)

lemma handle_collisions_start_time [simp]:
  "start_time (handle_collisions now clk io g) = start_time g"
  by (simp add: handle_collisions_def Let_def)

lemma update_game_start_time: "start_time (update_game dt env g) = start_time g"
  by (simp add: update_game_def Let_def split_def)

lemma update_game_score:
  "state g = S_PLAY \<Longrightarrow>
     score (update_game dt env g) =
       (t_now env - start_time g) * 10
       + real_of_int (max 0 (int (length (enemies (update_game dt env g))) - 4))"
  by (simp add: update_game_def Let_def split_def)

lemma update_game_idle: "state g \<noteq> S_PLAY \<Longrightarrow> update_game dt env g = g"
  by (simp add: update_game_def Let_def)

text \<open>
  Claim C2, amended.  For two consecutive ticks of \<^verbatim>\<open>Game.update\<close>, the first one made
  while playing and the clock not running backwards, the score after the later tick is
  at least the score after the earlier one provided the number of live obstacles after
  the later tick is not below the number after the earlier one.
\<close>

theorem score_monotone_without_drop:
  assumes "state g0 = S_PLAY"
    and "t_now env1 \<le> t_now env2"
    and "length (enemies (update_game dt1 env1 g0))
           \<le> length (enemies (update_game dt2 env2 (update_game dt1 env1 g0)))"
  shows "score (update_game dt1 env1 g0) \<le> score (update_game dt2 env2 (update_game dt1 env1 g0))"
proof (cases "state (update_game dt1 env1 g0) = S_PLAY")
  case True
  let ?g1 = "update_game dt1 env1 g0"
  let ?g2 = "update_game dt2 env2 ?g1"
  have s1: "score ?g1 = (t_now env1 - start_time g0) * 10
              + real_of_int (max 0 (int (length (enemies ?g1)) - 4))"
    using assms(1) by (rule update_game_score)
  have s2: "score ?g2 = (t_now env2 - start_time g0) * 10
              + real_of_int (max 0 (int (length (enemies ?g2)) - 4))"
    using update_game_score [OF True, of dt2 env2] by (simp add: update_game_start_time)
  have "max 0 (int (length (enemies ?g1)) - 4) \<le> max 0 (int (length (enemies ?g2)) - 4)"
    using assms(3) by simp
  then have "real_of_int (max 0 (int (length (enemies ?g1)) - 4))
               \<le> real_of_int (max 0 (int (length (enemies ?g2)) - 4))"
    by (simp only: of_int_le_iff)
  then show ?thesis
    unfolding s1 s2 using assms(2) by simp
next
  case False
  then show ?thesis by (simp add: update_game_idle)
qed


lemma still_player: "update_player dt keys_none now start_player = start_player"
  by (simp add: update_player_def unit_dir_def raw_dir_def keys_none_def start_player_def
      py_int_def clamp_def config_defs Let_def)

lemma falling_step:
  "i \<le> 20 \<Longrightarrow> update_enemy (1 / 60) (falling i y) = (y + 4 \<le> 540, falling i (y + 4))"
  by (simp add: update_enemy_def falling_def py_int_def rect_left_def rect_right_def
      rect_top_def config_defs Let_def)

lemma falling_aside:
  "i \<le> 10 \<Longrightarrow> \<not> colliderect (p_rect start_player) (e_rect (falling i y))"
  by (simp add: colliderect_def start_player_def falling_def config_defs)

lemma handle_enemies_clear:
  "\<forall>e\<in>set es. \<not> colliderect (p_rect (player g)) (e_rect e) \<Longrightarrow>
     handle_enemies now clk io es g = g"
  by (induction es) (simp_all add: collide_enemy_def)

lemma update_game_quiet:
  assumes "state g = S_PLAY" and "player g = start_player" and "powerups g = []"
    and "t_keys env = keys_none"
    and "t_now env - last_spawn g < fst (difficulty (t_now env - start_time g))"
    and "t_now env - start_time g < next_powerup_t g"
    and "\<forall>e\<in>set (advance_enemies dt (enemies g)).
           \<not> colliderect (p_rect start_player) (e_rect e)"
  shows "update_game dt env g =
           g\<lparr>enemies := advance_enemies dt (enemies g),
             score := (t_now env - start_time g) * 10
                + real_of_int (max 0 (int (length (advance_enemies dt (enemies g))) - 4))\<rparr>"
proof -
  let ?g = "g\<lparr>enemies := advance_enemies dt (enemies g)\<rparr>"
  have k: "\<not> (K_SPACE keys_none \<or> K_LCTRL keys_none)"
    by (simp add: keys_none_def)
  have p: "g\<lparr>player := start_player\<rparr> = g"
    using assms(2) by simp
  have sp: "spawn_enemies env el (fst (difficulty (t_now env - start_time g))) sd g = g" for el sd
    using assms(5) by (simp add: spawn_enemies_def)
  have pw: "spawn_powerups env (t_now env - start_time g) g = g"
    using assms(6) by (simp add: spawn_powerups_def)
  have pz: "g\<lparr>enemies := es, powerups := []\<rparr> = g\<lparr>enemies := es\<rparr>" for es
    using assms(3) by (cases g) simp
  have hc: "handle_collisions now clk io
              (g\<lparr>enemies := advance_enemies dt (enemies g),
                 powerups := advance_powerups dt (powerups g)\<rparr>) = ?g"
    for now clk io
    using assms(2,3,7)
    by (simp add: handle_collisions_def advance_powerups_def handle_enemies_clear pz Let_def)
  show ?thesis
    using assms(1,2,4) k
    by (simp add: update_game_def still_player p split_def sp pw hc Let_def)
qed

lemma difficulty_10:
  assumes "0 \<le> t" and "t \<le> 30"
  shows "1 / 2 < fst (difficulty t)"
proof -
  have "spec_k t = t / 60"
    using assms by (simp add: spec_k_def SPAWN_ACCEL_TIME_def)
  then have "fst (difficulty t) = 9 / 10 - 72 / 100 * (t / 60)"
    by (simp add: difficulty_alt)
  then show ?thesis using assms by simp
qed

lemma dense_tick:
  assumes "10 \<le> t" and "t \<le> 104 / 10"
    and "\<forall>e\<in>set (advance_enemies dt es). \<not> colliderect (p_rect start_player) (e_rect e)"
  shows "update_game dt (quiet_env t) (dense_game\<lparr>enemies := es, score := s\<rparr>) =
           dense_game\<lparr>enemies := advance_enemies dt es,
             score := t * 10 + real_of_int (max 0 (int (length (advance_enemies dt es)) - 4))\<rparr>"
proof -
  let ?g = "dense_game\<lparr>enemies := es, score := s\<rparr>"
  have d: "1 / 2 < fst (difficulty t)"
    using assms(1,2) by (intro difficulty_10) simp_all
  have "update_game dt (quiet_env t) ?g =
          ?g\<lparr>enemies := advance_enemies dt (enemies ?g),
             score := (t_now (quiet_env t) - start_time ?g) * 10
                + real_of_int (max 0 (int (length (advance_enemies dt (enemies ?g))) - 4))\<rparr>"
  proof (rule update_game_quiet)
    show "t_now (quiet_env t) - last_spawn ?g
            < fst (difficulty (t_now (quiet_env t) - start_time ?g))"
      using d assms(2) by (simp add: quiet_env_def dense_game_def)
    show "t_now (quiet_env t) - start_time ?g < next_powerup_t ?g"
      using assms(2) by (simp add: quiet_env_def dense_game_def)
    show "\<forall>e\<in>set (advance_enemies dt (enemies ?g)).
           \<not> colliderect (p_rect start_player) (e_rect e)"
      using assms(3) by simp
  qed (simp_all add: dense_game_def quiet_env_def)
  then show ?thesis
    by (simp add: quiet_env_def dense_game_def)
qed

lemma dense_game_self: "dense_game\<lparr>enemies := enemies dense_game, score := score dense_game\<rparr> = dense_game"
  by simp

lemma tick1_value:
  "tick1 = dense_game\<lparr>enemies := [falling 0 537, falling 1 537, falling 2 537,
                                   falling 3 537, falling 4 537], score := 101\<rparr>"
proof -
  have adv: "advance_enemies (1 / 60) (enemies dense_game) =
     [falling 0 537, falling 1 537, falling 2 537, falling 3 537, falling 4 537]"
    by (simp add: advance_enemies_def dense_game_def falling_step)
  have "update_game (1 / 60) (quiet_env 10)
          (dense_game\<lparr>enemies := enemies dense_game, score := score dense_game\<rparr>) =
        dense_game\<lparr>enemies := advance_enemies (1 / 60) (enemies dense_game),
          score := 10 * 10 + real_of_int (max 0
            (int (length (advance_enemies (1 / 60) (enemies dense_game))) - 4))\<rparr>"
    by (rule dense_tick) (simp_all add: adv falling_aside)
  then show ?thesis
    unfolding adv tick1_def dense_game_self by simp
qed

lemma tick2_value:
  "tick2 = dense_game\<lparr>enemies := [], score := 601 / 6\<rparr>"
proof -
  let ?es = "[falling 0 537, falling 1 537, falling 2 537, falling 3 537, falling 4 537]"
  have adv: "advance_enemies (1 / 60) ?es = []"
    by (simp add: advance_enemies_def falling_step)
  have cl: "\<forall>e\<in>set (advance_enemies (1 / 60) ?es).
              \<not> colliderect (p_rect start_player) (e_rect e)"
    unfolding adv by simp
  have "update_game (1 / 60) (quiet_env (10 + 1 / 60)) (dense_game\<lparr>enemies := ?es, score := 101\<rparr>) =
        dense_game\<lparr>enemies := advance_enemies (1 / 60) ?es,
          score := (10 + 1 / 60) * 10 + real_of_int (max 0
            (int (length (advance_enemies (1 / 60) ?es)) - 4))\<rparr>"
    by (rule dense_tick [OF _ _ cl]) simp_all
  then show ?thesis
    unfolding adv tick2_def tick1_value by simp
qed

text \<open>
  Claim C2 as stated fails.  Five obstacles are alive after the tick at 10 seconds,
  giving the score \<open>100 + 1\<close>; on the next tick, a sixtieth of a second later, all five
  leave the field and the score is \<open>100.1666\<dots>\<close>, while the session is still in play.
\<close>

theorem score_drop_counterexample:
  "state dense_game = S_PLAY \<and> state tick1 = S_PLAY \<and> state tick2 = S_PLAY
   \<and> t_now (quiet_env 10) < t_now (quiet_env (10 + 1 / 60))
   \<and> length (enemies tick1) = 5 \<and> length (enemies tick2) = 0
   \<and> score tick1 = 101 \<and> score tick2 = 601 / 6
   \<and> score tick2 < score tick1"
  by (simp add: tick1_value tick2_value dense_game_def quiet_env_def)

lemma calm_ticks:
  "update_game (1 / 60) (quiet_env 10) calm_game =
     dense_game\<lparr>enemies := [falling 0 104], score := 100\<rparr>"
  "update_game (1 / 60) (quiet_env (10 + 1 / 60)) (dense_game\<lparr>enemies := [falling 0 104], score := 100\<rparr>) =
     dense_game\<lparr>enemies := [falling 0 108], score := 601 / 6\<rparr>"
proof -
  have adv: "advance_enemies (1 / 60) [falling 0 y] = (if y + 4 \<le> 540 then [falling 0 (y + 4)] else [])" for y
    by (simp add: advance_enemies_def falling_step)
  have "update_game (1 / 60) (quiet_env 10) (dense_game\<lparr>enemies := [falling 0 100], score := 100\<rparr>) =
        dense_game\<lparr>enemies := advance_enemies (1 / 60) [falling 0 100],
          score := 10 * 10 + real_of_int (max 0
            (int (length (advance_enemies (1 / 60) [falling 0 100])) - 4))\<rparr>"
    by (rule dense_tick) (simp_all add: adv falling_aside)
  then show "update_game (1 / 60) (quiet_env 10) calm_game =
     dense_game\<lparr>enemies := [falling 0 104], score := 100\<rparr>"
    unfolding adv calm_game_def by simp
  have "update_game (1 / 60) (quiet_env (10 + 1 / 60)) (dense_game\<lparr>enemies := [falling 0 104], score := 100\<rparr>) =
        dense_game\<lparr>enemies := advance_enemies (1 / 60) [falling 0 104],
          score := (10 + 1 / 60) * 10 + real_of_int (max 0
            (int (length (advance_enemies (1 / 60) [falling 0 104])) - 4))\<rparr>"
    by (rule dense_tick) (simp_all add: adv falling_aside)
  then show "update_game (1 / 60) (quiet_env (10 + 1 / 60)) (dense_game\<lparr>enemies := [falling 0 104], score := 100\<rparr>) =
     dense_game\<lparr>enemies := [falling 0 108], score := 601 / 6\<rparr>"
    unfolding adv by simp
qed

theorem score_monotone_without_drop_witness:
  "state calm_game = S_PLAY
   \<and> t_now (quiet_env 10) \<le> t_now (quiet_env (10 + 1 / 60))
   \<and> length (enemies (update_game (1 / 60) (quiet_env 10) calm_game))
       \<le> length (enemies (update_game (1 / 60) (quiet_env (10 + 1 / 60))
                    (update_game (1 / 60) (quiet_env 10) calm_game)))
   \<and> score (update_game (1 / 60) (quiet_env 10) calm_game)
       \<le> score (update_game (1 / 60) (quiet_env (10 + 1 / 60))
                  (update_game (1 / 60) (quiet_env 10) calm_game))"
proof -
  have s: "state calm_game = S_PLAY"
    by (simp add: calm_game_def dense_game_def)
  have t: "t_now (quiet_env 10) \<le> t_now (quiet_env (10 + 1 / 60))"
    by (simp add: quiet_env_def)
  have n: "length (enemies (update_game (1 / 60) (quiet_env 10) calm_game))
       \<le> length (enemies (update_game (1 / 60) (quiet_env (10 + 1 / 60))
                    (update_game (1 / 60) (quiet_env 10) calm_game)))"
    unfolding calm_ticks by simp
  from score_monotone_without_drop [OF s t n] s t n show ?thesis
    by simp
qed

end
